theory Spec2Isabelle
  imports Complex_Main
begin

section \<open>Handles and enumerations\<close>

text \<open>
  The unit under verification is \<open>Tab\<close> of the terminal application (the second document of
  \<open>src/cascadia/TerminalApp/FilteredCommand.idl\<close>, which is the text of \<open>Tab.cpp\<close>).
  A \<open>std::shared_ptr<Pane>\<close> is compared by address in the source
  (\<open>sender != tab->_activePane\<close>), so a pane object is named by its address, a natural
  number; a null pointer is \<open>None\<close> of \<open>pane_id option\<close>. A \<open>TermControl\<close> is a WinRT handle,
  also compared by identity; the null handle is \<open>None\<close>. A \<open>GUID\<close> is an opaque value.
\<close>

type_synonym pane_id = nat
type_synonym TermControl = nat
type_synonym GUID = nat

text \<open>
  Modelled from the spec: the declaration of \<open>winrt::TerminalApp::SplitState\<close> is not among
  the sources; section 6 of the spec gives the two axes a split can take.
\<close>

datatype SplitState = Vertical | Horizontal

text \<open>
  Modelled from the spec: the declaration of \<open>winrt::TerminalApp::Direction\<close> is not among the
  sources; section 6 of the spec lists its four values.
\<close>

datatype Direction = Left | Right | Up | Down

text \<open>A \<open>Windows::Foundation::Size\<close>: width and height.\<close>

type_synonym Size = "real \<times> real"

section \<open>The pane tree\<close>

text \<open>
  Modelled from the spec: class \<open>Pane\<close> is not among the sources. Section 3 of the spec gives
  its data model: a node is a leaf holding one content (the source constructs it from a
  profile and a control, \<open>std::make_shared<Pane>(profile, control, true)\<close>) or a split holding
  two ordered children, an orientation and a split ratio; every node carries \<open>isActive\<close> and
  \<open>lastAllocatedSize\<close>. The first field is the address of the object.
\<close>

datatype Pane =
    Leaf pane_id GUID TermControl bool Size
  | SplitNode pane_id SplitState real bool Size Pane Pane

fun paneId :: "Pane \<Rightarrow> pane_id" where
  "paneId (Leaf i p c a sz) = i"
| "paneId (SplitNode i st r a sz x y) = i"

fun pane_ids :: "Pane \<Rightarrow> pane_id list" where
  "pane_ids (Leaf i p c a sz) = [i]"
| "pane_ids (SplitNode i st r a sz x y) = i # pane_ids x @ pane_ids y"

fun leaf_ids :: "Pane \<Rightarrow> pane_id list" where
  "leaf_ids (Leaf i p c a sz) = [i]"
| "leaf_ids (SplitNode i st r a sz x y) = leaf_ids x @ leaf_ids y"

text \<open>The leaves whose \<open>isActive\<close> flag is set, left to right.\<close>

fun active_leaves :: "Pane \<Rightarrow> pane_id list" where
  "active_leaves (Leaf i p c a sz) = (if a then [i] else [])"
| "active_leaves (SplitNode i st r a sz x y) = active_leaves x @ active_leaves y"

text \<open>
  \<open>find_pane i t\<close> is the object at address \<open>i\<close> when it is part of the tree \<open>t\<close>;
  \<open>update_at i f t\<close> runs the member function \<open>f\<close> on that object, in place.
\<close>

fun find_pane :: "pane_id \<Rightarrow> Pane \<Rightarrow> Pane option" where
  "find_pane j (Leaf i p c a sz) = (if i = j then Some (Leaf i p c a sz) else None)"
| "find_pane j (SplitNode i st r a sz x y) =
     (if i = j then Some (SplitNode i st r a sz x y)
      else case find_pane j x of Some s \<Rightarrow> Some s | None \<Rightarrow> find_pane j y)"

fun update_at :: "pane_id \<Rightarrow> (Pane \<Rightarrow> Pane) \<Rightarrow> Pane \<Rightarrow> Pane" where
  "update_at j f (Leaf i p c a sz) = (if i = j then f (Leaf i p c a sz) else Leaf i p c a sz)"
| "update_at j f (SplitNode i st r a sz x y) =
     (if i = j then f (SplitNode i st r a sz x y)
      else if j \<in> set (pane_ids x) then SplitNode i st r a sz (update_at j f x) y
      else SplitNode i st r a sz x (update_at j f y))"

text \<open>
  Modelled from the spec: \<open>Pane::ClearActive\<close> and \<open>Pane::SetActive\<close> are not among the
  sources. Section 4.1: "recursive clear of the isActive flag across the whole tree, then
  set on exactly one target leaf".
\<close>

fun Pane_ClearActive :: "Pane \<Rightarrow> Pane" where
  "Pane_ClearActive (Leaf i p c a sz) = Leaf i p c False sz"
| "Pane_ClearActive (SplitNode i st r a sz x y) =
     SplitNode i st r False sz (Pane_ClearActive x) (Pane_ClearActive y)"

fun Pane_SetActive :: "Pane \<Rightarrow> Pane" where
  "Pane_SetActive (Leaf i p c a sz) = Leaf i p c True sz"
| "Pane_SetActive (SplitNode i st r a sz x y) = SplitNode i st r True sz x y"

text \<open>
  Modelled from the spec: \<open>Pane::GetTerminalControl\<close> and \<open>Pane::GetFocusedProfile\<close> are not
  among the sources. Section 3: content is present iff the node is a leaf; the leaf was
  constructed from its profile and its control.
\<close>

fun Pane_GetTerminalControl :: "Pane \<Rightarrow> TermControl option" where
  "Pane_GetTerminalControl (Leaf i p c a sz) = Some c"
| "Pane_GetTerminalControl (SplitNode i st r a sz x y) = None"

fun Pane_GetFocusedProfile :: "Pane \<Rightarrow> GUID option" where
  "Pane_GetFocusedProfile (Leaf i p c a sz) = Some p"
| "Pane_GetFocusedProfile (SplitNode i st r a sz x y) = None"

subsection \<open>Geometry\<close>

text \<open>
  Modelled from the spec: the layout code of \<open>Pane\<close> is not among the sources. Section 4.1:
  a vertical split arranges its children side by side (the width is divided), a horizontal
  split stacks them (the height is divided); \<open>splitRatio\<close> is the first child's share.
\<close>

fun axis :: "SplitState \<Rightarrow> Size \<Rightarrow> real" where
  "axis Vertical (w, h) = w"
| "axis Horizontal (w, h) = h"

fun firstSize :: "SplitState \<Rightarrow> real \<Rightarrow> Size \<Rightarrow> Size" where
  "firstSize Vertical r (w, h) = (w * r, h)"
| "firstSize Horizontal r (w, h) = (w, h * r)"

fun secondSize :: "SplitState \<Rightarrow> real \<Rightarrow> Size \<Rightarrow> Size" where
  "secondSize Vertical r (w, h) = (w * (1 - r), h)"
| "secondSize Horizontal r (w, h) = (w, h * (1 - r))"

text \<open>
  Modelled from the spec: \<open>Pane::ResizeContent\<close> is not among the sources. Section 4.1:
  "computes each child's allocated rectangle from splitRatio and orientation, recursing
  depth-first".
\<close>

fun Pane_ResizeContent :: "Size \<Rightarrow> Pane \<Rightarrow> Pane" where
  "Pane_ResizeContent new (Leaf i p c a sz) = Leaf i p c a new"
| "Pane_ResizeContent new (SplitNode i st r a sz x y) =
     SplitNode i st r a new
       (Pane_ResizeContent (firstSize st r new) x)
       (Pane_ResizeContent (secondSize st r new) y)"

text \<open>
  Modelled from the spec: \<open>Pane::CanSplit\<close> is not among the sources, and neither is the
  minimum usable size, which is the parameter \<open>mn\<close>. Section 4.1: "true iff the pane's
  currently allocated size, divided according to direction's orientation, leaves both
  resulting children at or above a minimum usable size. Applies recursively only to the
  active leaf"; a new split has ratio 0.5.
\<close>

definition fits :: "Size \<Rightarrow> SplitState \<Rightarrow> Size \<Rightarrow> bool" where
  "fits mn st sz \<longleftrightarrow>
     axis st mn \<le> axis st (firstSize st (1 / 2) sz) \<and>
     axis st mn \<le> axis st (secondSize st (1 / 2) sz)"

fun Pane_CanSplit :: "Size \<Rightarrow> SplitState \<Rightarrow> Pane \<Rightarrow> bool" where
  "Pane_CanSplit mn st (Leaf i p c a sz) = fits mn st sz"
| "Pane_CanSplit mn st (SplitNode i s r a sz x y) =
     (if active_leaves x \<noteq> [] then Pane_CanSplit mn st x
      else if active_leaves y \<noteq> [] then Pane_CanSplit mn st y
      else False)"

text \<open>
  The leaf an operation on the pane \<open>t\<close> is about: \<open>t\<close> itself when it is a leaf, the active
  leaf below it otherwise (the recursion of \<open>Pane_CanSplit\<close>).
\<close>

fun target_leaf :: "Pane \<Rightarrow> Pane option" where
  "target_leaf (Leaf i p c a sz) = Some (Leaf i p c a sz)"
| "target_leaf (SplitNode i s r a sz x y) =
     (if active_leaves x \<noteq> [] then target_leaf x
      else if active_leaves y \<noteq> [] then target_leaf y
      else None)"


subsection \<open>Split\<close>

text \<open>
  Modelled from the spec: \<open>Pane::Split\<close> is not among the sources. Section 4.1: "only valid
  on a leaf; replaces the leaf, in its parent's ownership slot, with a new split node whose
  two children are a fresh leaf wrapping the original content and a fresh leaf wrapping
  newContent. Default splitRatio = 0.5. Fails (no mutation) if CanSplit would be false.
  Both resulting leaves fire a size-allocation pass before return." The scenario of section 8
  makes the newly split-in pane the active one, and section 4.1 has active-pane identity
  change by \<open>ClearActive\<close> then \<open>SetActive\<close>.

  \<open>Tab\<close> never reassigns \<open>_rootPane\<close> and calls \<open>ResizeContent\<close>, \<open>NavigateFocus\<close> and
  \<open>ClearActive\<close> on it "so that it can propagate throughout the entire tree": the object in a
  slot stays, and it is its content that is replaced. The split node therefore keeps the
  address of the leaf it replaces; \<open>n1\<close> and \<open>n2\<close> are the addresses of the two fresh leaves.
  The source destructures the result into two \<open>shared_ptr<Pane>\<close>; a failed split returns
  two null pointers.
\<close>

fun split_leaf :: "pane_id \<Rightarrow> pane_id \<Rightarrow> SplitState \<Rightarrow> GUID \<Rightarrow> TermControl \<Rightarrow> Pane \<Rightarrow> Pane" where
  "split_leaf n1 n2 st prof ctl (Leaf i p c a sz) =
     SplitNode i st (1 / 2) a sz
       (Leaf n1 p c False (firstSize st (1 / 2) sz))
       (Leaf n2 prof ctl False (secondSize st (1 / 2) sz))"
| "split_leaf n1 n2 st prof ctl (SplitNode i s r a sz x y) = SplitNode i s r a sz x y"

definition Pane_Split ::
  "Size \<Rightarrow> pane_id \<Rightarrow> pane_id \<Rightarrow> pane_id \<Rightarrow> SplitState \<Rightarrow> GUID \<Rightarrow> TermControl \<Rightarrow> Pane
     \<Rightarrow> (pane_id option \<times> pane_id option) \<times> Pane" where
  "Pane_Split mn this n1 n2 st prof ctl t =
     (case find_pane this t of
        Some (Leaf i p c a sz) \<Rightarrow>
          if Pane_CanSplit mn st (Leaf i p c a sz)
          then ((Some n1, Some n2),
                update_at n2 Pane_SetActive
                  (Pane_ClearActive (update_at this (split_leaf n1 n2 st prof ctl) t)))
          else ((None, None), t)
      | Some (SplitNode i s r a sz x y) \<Rightarrow> ((None, None), t)
      | None \<Rightarrow> ((None, None), t))"

subsection \<open>Close\<close>

text \<open>
  Modelled from the spec: \<open>Pane::Close\<close> is not among the sources. Section 4.1: "closes the
  active leaf. If it has a sibling, the sibling is promoted into the grandparent's slot and
  the sibling's topmost descendant that was previously active within its subtree becomes the
  new tree-wide active leaf; if it had no previously active descendant, the leftmost leaf
  becomes active. If the closed leaf was the tree's only node, the result is TreeEmptied."
  As for a split, the slot of the split node keeps its address and takes the sibling's
  content; the sibling keeps everything else it had.
\<close>

datatype CloseResult = StillHasSiblings | TreeEmptied

fun promote :: "pane_id \<Rightarrow> Pane \<Rightarrow> Pane" where
  "promote i (Leaf j p c a sz) = Leaf i p c a sz"
| "promote i (SplitNode j st r a sz x y) = SplitNode i st r a sz x y"

fun leftmost_leaf :: "Pane \<Rightarrow> pane_id" where
  "leftmost_leaf (Leaf i p c a sz) = i"
| "leftmost_leaf (SplitNode i st r a sz x y) = leftmost_leaf x"

definition next_active :: "Pane \<Rightarrow> pane_id" where
  "next_active s = (case active_leaves s of l # ls \<Rightarrow> l | [] \<Rightarrow> leftmost_leaf s)"

fun is_leaf_at :: "pane_id \<Rightarrow> Pane \<Rightarrow> bool" where
  "is_leaf_at c (Leaf i p ctl a sz) = (i = c)"
| "is_leaf_at c (SplitNode i st r a sz x y) = False"

text \<open>
  \<open>collapse c t\<close> removes the leaf at address \<open>c\<close> from below the root of \<open>t\<close> and returns
  the new tree with the leaf that is to become active; \<open>None\<close> when \<open>c\<close> is not a leaf
  below the root.
\<close>

fun collapse :: "pane_id \<Rightarrow> Pane \<Rightarrow> (Pane \<times> pane_id) option" where
  "collapse c (Leaf i p ctl a sz) = None"
| "collapse c (SplitNode i st r a sz x y) =
     (if is_leaf_at c x then Some (promote i y, next_active (promote i y))
      else if is_leaf_at c y then Some (promote i x, next_active (promote i x))
      else case collapse c x of
             Some (x', l) \<Rightarrow> Some (SplitNode i st r a sz x' y, l)
           | None \<Rightarrow>
               (case collapse c y of
                  Some (y', l) \<Rightarrow> Some (SplitNode i st r a sz x y', l)
                | None \<Rightarrow> None))"

definition Pane_Close :: "pane_id \<Rightarrow> Pane \<Rightarrow> CloseResult \<times> Pane option" where
  "Pane_Close this t =
     (case Option.bind (find_pane this t) target_leaf of
        None \<Rightarrow> (StillHasSiblings, Some t)
      | Some l \<Rightarrow>
          (case t of
             Leaf i p c a sz \<Rightarrow> (TreeEmptied, None)
           | SplitNode i st r a sz x y \<Rightarrow>
               (case collapse (paneId l) t of
                  Some (t', n) \<Rightarrow>
                    (StillHasSiblings, Some (update_at n Pane_SetActive (Pane_ClearActive t')))
                | None \<Rightarrow> (StillHasSiblings, Some t))))"

subsection \<open>Focus navigation\<close>

text \<open>
  Modelled from the spec: \<open>Pane::NavigateFocus\<close> is not among the sources. Section 4.1: "from
  the active leaf, walks upward until an ancestor is found whose orientation matches
  direction's axis and on whose far side a sibling subtree exists; descends into that
  sibling subtree choosing, at each split, the child adjacent to the coming-from edge, until
  a leaf is reached; that leaf becomes active (clearing the previous active flag first).
  Returns false, leaves state unchanged, if no such ancestor exists." The first child of a
  vertical split is the left one, the first child of a horizontal split the upper one.
\<close>

fun toward_second :: "SplitState \<Rightarrow> Direction \<Rightarrow> bool" where
  "toward_second Vertical Right = True"
| "toward_second Horizontal Down = True"
| "toward_second st d = False"

fun toward_first :: "SplitState \<Rightarrow> Direction \<Rightarrow> bool" where
  "toward_first Vertical Left = True"
| "toward_first Horizontal Up = True"
| "toward_first st d = False"

fun entry_leaf :: "Direction \<Rightarrow> Pane \<Rightarrow> pane_id" where
  "entry_leaf d (Leaf i p c a sz) = i"
| "entry_leaf d (SplitNode i st r a sz x y) =
     (if toward_first st d then entry_leaf d y else entry_leaf d x)"

datatype nav = NoActive | Pending | Found pane_id

fun nav_target :: "Direction \<Rightarrow> Pane \<Rightarrow> nav" where
  "nav_target d (Leaf i p c a sz) = (if a then Pending else NoActive)"
| "nav_target d (SplitNode i st r a sz x y) =
     (case nav_target d x of
        Found l \<Rightarrow> Found l
      | Pending \<Rightarrow> if toward_second st d then Found (entry_leaf d y) else Pending
      | NoActive \<Rightarrow>
          (case nav_target d y of
             Found l \<Rightarrow> Found l
           | Pending \<Rightarrow> if toward_first st d then Found (entry_leaf d x) else Pending
           | NoActive \<Rightarrow> NoActive))"

definition Pane_NavigateFocus :: "Direction \<Rightarrow> Pane \<Rightarrow> bool \<times> Pane" where
  "Pane_NavigateFocus d t =
     (case nav_target d t of
        Found l \<Rightarrow> (True, update_at l Pane_SetActive (Pane_ClearActive t))
      | Pending \<Rightarrow> (False, t)
      | NoActive \<Rightarrow> (False, t))"

section \<open>The tab\<close>

text \<open>
  What \<open>Tab\<close> hands to its collaborators is recorded in the order of the calls: a lambda
  given to \<open>Dispatcher().RunAsync\<close>, a \<open>Focus(FocusState::Programmatic)\<close> on a control, and
  the two events the tab raises for its owner (\<open>_ClosedHandlers\<close> and
  \<open>_ActivePaneChangedHandlers\<close>).
\<close>

datatype notification = Closed | ActivePaneChanged

datatype task = SetHeader string | LoadIcon

datatype effect = RunAsync task | Focus TermControl | Raise notification

datatype error = NullPaneDereference

record TabViewItem =
  Header :: string
  IconSource :: string

text \<open>
  The state: the members of \<open>Tab\<close> that the source reads and writes (\<open>rootPane\<close>,
  \<open>activePane\<close>, \<open>focused\<close>, \<open>lastIconPath\<close>, \<open>tabViewItem\<close>), the pane tree reached through
  \<open>_rootPane\<close> (\<open>None\<close> once the last leaf has closed), the next address \<open>make_shared<Pane>\<close>
  hands out, and what lies outside the tab: whether a \<open>weak_ptr<Tab>\<close> still locks
  (\<open>expired\<close>), the titles the controls report, the events the tab's lambdas are registered
  on, and the calls made so far.
\<close>

record world =
  panes :: "Pane option"
  nextPane :: pane_id
  rootPane :: pane_id
  activePane :: pane_id
  focused :: bool
  lastIconPath :: string
  tabViewItem :: TabViewItem
  expired :: bool
  title :: "TermControl \<Rightarrow> string"
  gotFocusHandlers :: "pane_id list"
  closedHandlers :: "pane_id list"
  titleChangedHandlers :: "TermControl list"
  outbox :: "effect list"

text \<open>
  \<open>Tab::Tab\<close>. The root pane is a leaf around the control, constructed with the flag \<open>true\<close>;
  its \<open>Closed\<close> event gets the forwarding lambda; \<open>_activePane = _rootPane\<close>; the tab view
  item is fresh. No size has been allocated yet. The members without an initialiser in the
  constructor (\<open>_focused\<close>, \<open>_lastIconPath\<close>) start as \<open>false\<close> and the empty string.
\<close>

definition Tab_ctor :: "GUID \<Rightarrow> TermControl \<Rightarrow> (TermControl \<Rightarrow> string) \<Rightarrow> world" where
  "Tab_ctor profile ctl titles =
     \<lparr> panes = Some (Leaf 0 profile ctl True (0, 0)),
       nextPane = 1,
       rootPane = 0,
       activePane = 0,
       focused = False,
       lastIconPath = [],
       tabViewItem = \<lparr> Header = [], IconSource = [] \<rparr>,
       expired = False,
       title = titles,
       gotFocusHandlers = [],
       closedHandlers = [0],
       titleChangedHandlers = [],
       outbox = [] \<rparr>"

text \<open>
  The object a \<open>shared_ptr<Pane>\<close> of the tab points to. A pane that is no longer part of the
  tree (a closed leaf, a sibling whose content moved up) has given its content away.
\<close>

definition the_pane :: "pane_id \<Rightarrow> world \<Rightarrow> Pane option" where
  "the_pane i w = Option.bind (panes w) (find_pane i)"

text \<open>\<open>Tab::GetActiveTerminalControl\<close>, \<open>Tab::IsFocused\<close>, \<open>Tab::GetFocusedProfile\<close>,
  \<open>Tab::GetActiveTitle\<close>: const member functions.\<close>

definition Tab_GetActiveTerminalControl :: "world \<Rightarrow> TermControl option" where
  "Tab_GetActiveTerminalControl w =
     Option.bind (the_pane (activePane w) w) Pane_GetTerminalControl"

definition Tab_IsFocused :: "world \<Rightarrow> bool" where
  "Tab_IsFocused w = focused w"

definition Tab_GetFocusedProfile :: "world \<Rightarrow> GUID option" where
  "Tab_GetFocusedProfile w =
     Option.bind (the_pane (activePane w) w) Pane_GetFocusedProfile"

definition Tab_GetActiveTitle :: "world \<Rightarrow> string" where
  "Tab_GetActiveTitle w =
     (case Tab_GetActiveTerminalControl w of
        Some lastFocusedControl \<Rightarrow> title w lastFocusedControl
      | None \<Rightarrow> [])"

text \<open>\<open>Tab::_Focus\<close> and \<open>Tab::SetFocused\<close>.\<close>

definition Tab_Focus :: "world \<Rightarrow> world" where
  "Tab_Focus w =
     (let w1 = w\<lparr>focused := True\<rparr> in
      case Tab_GetActiveTerminalControl w1 of
        Some lastFocusedControl \<Rightarrow> w1\<lparr>outbox := outbox w1 @ [Focus lastFocusedControl]\<rparr>
      | None \<Rightarrow> w1)"

definition Tab_SetFocused :: "bool \<Rightarrow> world \<Rightarrow> world" where
  "Tab_SetFocused b w =
     (let w1 = w\<lparr>focused := b\<rparr> in
      if focused w1 then Tab_Focus w1 else w1)"

text \<open>
  \<open>Tab::UpdateIcon\<close> and \<open>Tab::SetTabText\<close>. Each hands a lambda to the dispatcher. The icon
  lambda reads \<open>_lastIconPath\<close> when it runs; the header lambda carries its text. Both do
  nothing when the tab no longer exists (\<open>weakThis.lock()\<close> fails).
\<close>

definition Tab_UpdateIcon :: "string \<Rightarrow> world \<Rightarrow> world" where
  "Tab_UpdateIcon iconPath w =
     (if iconPath = lastIconPath w then w
      else let w1 = w\<lparr>lastIconPath := iconPath\<rparr> in
           w1\<lparr>outbox := outbox w1 @ [RunAsync LoadIcon]\<rparr>)"

definition Tab_SetTabText :: "string \<Rightarrow> world \<Rightarrow> world" where
  "Tab_SetTabText text w = w\<lparr>outbox := outbox w @ [RunAsync (SetHeader text)]\<rparr>"

fun run_task :: "task \<Rightarrow> world \<Rightarrow> world" where
  "run_task (SetHeader text) w =
     (if expired w then w else w\<lparr>tabViewItem := (tabViewItem w)\<lparr>Header := text\<rparr>\<rparr>)"
| "run_task LoadIcon w =
     (if expired w then w else w\<lparr>tabViewItem := (tabViewItem w)\<lparr>IconSource := lastIconPath w\<rparr>\<rparr>)"

text \<open>
  \<open>Tab::_AttachEventHandlersToControl\<close> and \<open>Tab::_AttachEventHandlersToPane\<close> register a
  lambda on \<open>control.TitleChanged\<close> and on \<open>pane->GotFocus\<close>. The second dereferences its
  argument, so a null pane is an error. \<open>Tab::BindEventHandlers\<close> attaches both, for the root
  pane (\<open>_rootPane\<close> is never null) and the first control.
\<close>

definition Tab_AttachEventHandlersToControl :: "TermControl \<Rightarrow> world \<Rightarrow> world" where
  "Tab_AttachEventHandlersToControl ctl w =
     w\<lparr>titleChangedHandlers := titleChangedHandlers w @ [ctl]\<rparr>"

definition subscribe_GotFocus :: "pane_id \<Rightarrow> world \<Rightarrow> world" where
  "subscribe_GotFocus p w = w\<lparr>gotFocusHandlers := gotFocusHandlers w @ [p]\<rparr>"

definition Tab_AttachEventHandlersToPane :: "pane_id option \<Rightarrow> world \<Rightarrow> error + world" where
  "Tab_AttachEventHandlersToPane pane w =
     (case pane of
        None \<Rightarrow> Inl NullPaneDereference
      | Some p \<Rightarrow> Inr (subscribe_GotFocus p w))"

definition Tab_BindEventHandlers :: "TermControl \<Rightarrow> world \<Rightarrow> world" where
  "Tab_BindEventHandlers ctl w =
     Tab_AttachEventHandlersToControl ctl (subscribe_GotFocus (rootPane w) w)"

text \<open>The three lambdas. The one on the root's \<open>Closed\<close> captures \<open>this\<close> and tests nothing;
  the other two lock a weak pointer first.\<close>

definition Closed_handler :: "world \<Rightarrow> world" where
  "Closed_handler w = w\<lparr>outbox := outbox w @ [Raise Closed]\<rparr>"

definition TitleChanged_handler :: "string \<Rightarrow> world \<Rightarrow> world" where
  "TitleChanged_handler newTitle w =
     (if expired w then w else Tab_SetTabText (Tab_GetActiveTitle w) w)"

definition GotFocus_handler :: "pane_id \<Rightarrow> world \<Rightarrow> world" where
  "GotFocus_handler sender w =
     (if \<not> expired w \<and> sender \<noteq> activePane w then
        let w1 = w\<lparr>panes := map_option (update_at (rootPane w) Pane_ClearActive) (panes w)\<rparr>;
            w2 = w1\<lparr>activePane := sender\<rparr>;
            w3 = w2\<lparr>panes := map_option (update_at (activePane w2) Pane_SetActive) (panes w2)\<rparr>;
            w4 = Tab_SetTabText (Tab_GetActiveTitle w3) w3
        in w4\<lparr>outbox := outbox w4 @ [Raise ActivePaneChanged]\<rparr>
      else w)"

text \<open>Raising an event runs every lambda registered on it.\<close>

definition raise_Closed :: "pane_id \<Rightarrow> world \<Rightarrow> world" where
  "raise_Closed p w = (Closed_handler ^^ count_list (closedHandlers w) p) w"

definition raise_GotFocus :: "pane_id \<Rightarrow> world \<Rightarrow> world" where
  "raise_GotFocus p w = (GotFocus_handler p ^^ count_list (gotFocusHandlers w) p) w"

definition raise_TitleChanged :: "TermControl \<Rightarrow> string \<Rightarrow> world \<Rightarrow> world" where
  "raise_TitleChanged ctl newTitle w =
     (TitleChanged_handler newTitle ^^ count_list (titleChangedHandlers w) ctl)
       (w\<lparr>title := (title w)(ctl := newTitle)\<rparr>)"

text \<open>\<open>Tab::CanSplitPane\<close> and \<open>Tab::SplitPane\<close>.\<close>

definition Tab_CanSplitPane :: "Size \<Rightarrow> SplitState \<Rightarrow> world \<Rightarrow> bool" where
  "Tab_CanSplitPane mn splitType w =
     (case the_pane (activePane w) w of
        Some p \<Rightarrow> Pane_CanSplit mn splitType p
      | None \<Rightarrow> False)"

definition Tab_SplitPane ::
  "Size \<Rightarrow> SplitState \<Rightarrow> GUID \<Rightarrow> TermControl \<Rightarrow> world \<Rightarrow> error + world" where
  "Tab_SplitPane mn splitType profile ctl w =
     (let (res, ps) =
            (case panes w of
               None \<Rightarrow> ((None, None), None)
             | Some t \<Rightarrow>
                 (let (r, t') = Pane_Split mn (activePane w) (nextPane w) (Suc (nextPane w))
                                  splitType profile ctl t
                  in (r, Some t')));
          w1 = w\<lparr>panes := ps,
                 nextPane := (if fst res = None then nextPane w else nextPane w + 2)\<rparr>;
          w2 = Tab_AttachEventHandlersToControl ctl w1
      in case Tab_AttachEventHandlersToPane (fst res) w2 of
           Inl e \<Rightarrow> Inl e
         | Inr w3 \<Rightarrow> Tab_AttachEventHandlersToPane (snd res) w3)"

text \<open>\<open>Tab::ResizeContent\<close>, \<open>Tab::NavigateFocus\<close> (both on the root pane) and
  \<open>Tab::ClosePane\<close> (on the active pane). The tree raises \<open>Closed\<close> on its root when its last
  leaf has closed.\<close>

definition Tab_ResizeContent :: "Size \<Rightarrow> world \<Rightarrow> world" where
  "Tab_ResizeContent newSize w =
     w\<lparr>panes := map_option (update_at (rootPane w) (Pane_ResizeContent newSize)) (panes w)\<rparr>"

definition Tab_NavigateFocus :: "Direction \<Rightarrow> world \<Rightarrow> world" where
  "Tab_NavigateFocus direction w =
     w\<lparr>panes := map_option (update_at (rootPane w) (\<lambda>p. snd (Pane_NavigateFocus direction p)))
                  (panes w)\<rparr>"

definition Tab_ClosePane :: "world \<Rightarrow> world" where
  "Tab_ClosePane w =
     (case panes w of
        None \<Rightarrow> w
      | Some t \<Rightarrow>
          (case Pane_Close (activePane w) t of
             (StillHasSiblings, ps) \<Rightarrow> w\<lparr>panes := ps\<rparr>
           | (TreeEmptied, ps) \<Rightarrow> raise_Closed (paneId t) (w\<lparr>panes := ps\<rparr>)))"

section \<open>Runs of a tab\<close>

text \<open>
  The states a tab goes through: it is constructed, and then its owner calls its member
  functions, the dispatcher runs the lambdas it was handed, and the panes and controls raise
  their events. Only a leaf of the tree raises \<open>GotFocus\<close> (section 4.1 of the spec: "every
  leaf, when its content reports a focus-gained event, raises a notification carrying its
  own identity"). A call of \<open>SplitPane\<close> that dereferences a null pointer ends the run.
\<close>

inductive reachable :: "Size \<Rightarrow> world \<Rightarrow> bool" for mn :: Size where
  construct: "reachable mn (Tab_ctor profile ctl titles)"
| bind: "reachable mn w \<Longrightarrow> reachable mn (Tab_BindEventHandlers ctl w)"
| resize: "reachable mn w \<Longrightarrow> reachable mn (Tab_ResizeContent newSize w)"
| split: "reachable mn w \<Longrightarrow> Tab_SplitPane mn splitType profile ctl w = Inr w'
          \<Longrightarrow> reachable mn w'"
| close: "reachable mn w \<Longrightarrow> reachable mn (Tab_ClosePane w)"
| navigate: "reachable mn w \<Longrightarrow> reachable mn (Tab_NavigateFocus direction w)"
| gotFocus: "reachable mn w \<Longrightarrow> panes w = Some t \<Longrightarrow> sender \<in> set (leaf_ids t)
          \<Longrightarrow> reachable mn (raise_GotFocus sender w)"
| titleChanged: "reachable mn w \<Longrightarrow> reachable mn (raise_TitleChanged ctl newTitle w)"
| setFocused: "reachable mn w \<Longrightarrow> reachable mn (Tab_SetFocused b w)"
| updateIcon: "reachable mn w \<Longrightarrow> reachable mn (Tab_UpdateIcon iconPath w)"
| dispatch: "reachable mn w \<Longrightarrow> RunAsync k \<in> set (outbox w) \<Longrightarrow> reachable mn (run_task k w)"

text \<open>
  The well-formedness of a state: the root pointer of the tab is the root of the tree, the
  addresses in the tree are pairwise different and were all handed out already, exactly one
  leaf is active, the forwarding lambda is registered once, on the root, and the tab exists.
\<close>

definition tree_ok :: "world \<Rightarrow> Pane \<Rightarrow> bool" where
  "tree_ok w t \<longleftrightarrow>
     paneId t = rootPane w \<and> distinct (pane_ids t) \<and> (\<forall>i \<in> set (pane_ids t). i < nextPane w)
     \<and> length (active_leaves t) = 1"

definition tab_inv :: "world \<Rightarrow> bool" where
  "tab_inv w \<longleftrightarrow>
     closedHandlers w = [rootPane w] \<and> \<not> expired w \<and>
     (case panes w of None \<Rightarrow> True | Some t \<Rightarrow> tree_ok w t)"

definition leaf_of :: "pane_id \<Rightarrow> world \<Rightarrow> bool" where
  "leaf_of s w \<longleftrightarrow> (case panes w of None \<Rightarrow> False | Some t \<Rightarrow> s \<in> set (leaf_ids t))"

section \<open>A concrete run\<close>

text \<open>
  A tab around control 9 with profile 7, laid out at 80 by 24 with a minimum pane size of 10
  by 5, and then split vertically for control 10 with profile 8.
\<close>

definition example_titles :: "TermControl \<Rightarrow> string" where
  "example_titles c = (if c = 9 then ''pwsh'' else ''cmd'')"

definition example_min :: Size where
  "example_min = (10, 5)"

definition example_tab0 :: world where
  "example_tab0 = Tab_BindEventHandlers 9 (Tab_ctor 7 9 example_titles)"

definition example_tab1 :: world where
  "example_tab1 = Tab_ResizeContent (80, 24) example_tab0"

definition example_tree2 :: Pane where
  "example_tree2 =
     SplitNode 0 Vertical (1 / 2) False (80, 24)
       (Leaf 1 7 9 False (40, 24)) (Leaf 2 8 10 True (40, 24))"

definition example_tab2 :: world where
  "example_tab2 =
     \<lparr> panes = Some example_tree2, nextPane = 3, rootPane = 0, activePane = 0, focused = False,
       lastIconPath = [], tabViewItem = \<lparr> Header = [], IconSource = [] \<rparr>, expired = False,
       title = example_titles, gotFocusHandlers = [0, 1, 2], closedHandlers = [0],
       titleChangedHandlers = [9, 10], outbox = [] \<rparr>"

text \<open>The first tab again, closing its only pane.\<close>

definition example_tab3 :: world where
  "example_tab3 = Tab_ClosePane example_tab1"

section \<open>Properties of the pane tree\<close>

lemma leaf_ids_subset: "set (leaf_ids t) \<subseteq> set (pane_ids t)"
  by (induction t) auto

lemma active_leaves_subset: "set (active_leaves t) \<subseteq> set (leaf_ids t)"
  by (induction t) auto

lemma paneId_in_pane_ids: "paneId t \<in> set (pane_ids t)"
  by (cases t) auto

lemma find_pane_None_iff: "find_pane j t = None \<longleftrightarrow> j \<notin> set (pane_ids t)"
  by (induction t) (auto split: option.splits)

lemma find_pane_Some_in: "find_pane j t = Some s \<Longrightarrow> j \<in> set (pane_ids t)"
  using find_pane_None_iff [of j t] by auto

lemma find_pane_paneId: "find_pane j t = Some s \<Longrightarrow> paneId s = j"
  by (induction t) (auto split: if_splits option.splits)

lemma find_pane_root: "find_pane (paneId t) t = Some t"
  by (cases t) auto

lemma update_at_root: "update_at (paneId t) f t = f t"
  by (cases t) auto

lemma ClearActive_pane_ids [simp]: "pane_ids (Pane_ClearActive t) = pane_ids t"
  by (induction t) auto

lemma ClearActive_leaf_ids [simp]: "leaf_ids (Pane_ClearActive t) = leaf_ids t"
  by (induction t) auto

lemma ClearActive_paneId [simp]: "paneId (Pane_ClearActive t) = paneId t"
  by (cases t) auto

lemma ClearActive_active_leaves [simp]: "active_leaves (Pane_ClearActive t) = []"
  by (induction t) auto

lemma SetActive_pane_ids [simp]: "pane_ids (update_at j Pane_SetActive t) = pane_ids t"
  by (induction t) auto

lemma SetActive_leaf_ids [simp]: "leaf_ids (update_at j Pane_SetActive t) = leaf_ids t"
  by (induction t) auto

lemma SetActive_paneId [simp]: "paneId (update_at j Pane_SetActive t) = paneId t"
  by (cases t) auto

lemma SetActive_absent: "j \<notin> set (pane_ids t) \<Longrightarrow> update_at j f t = t"
  by (induction t) auto

lemma SetActive_one:
  "distinct (pane_ids t) \<Longrightarrow> j \<in> set (leaf_ids t) \<Longrightarrow> active_leaves t = []
    \<Longrightarrow> active_leaves (update_at j Pane_SetActive t) = [j]"
proof (induction t)
  case (Leaf i p c a sz)
  then show ?case by simp
next
  case (SplitNode i st r a sz x y)
  have sub: "set (leaf_ids x) \<subseteq> set (pane_ids x)" "set (leaf_ids y) \<subseteq> set (pane_ids y)"
    by (rule leaf_ids_subset)+
  from SplitNode.prems have ne: "i \<noteq> j" using sub by auto
  show ?case
  proof (cases "j \<in> set (pane_ids x)")
    case True
    with SplitNode.prems sub have "j \<in> set (leaf_ids x)" by auto
    with SplitNode True ne show ?thesis by simp
  next
    case False
    with SplitNode.prems sub have "j \<in> set (leaf_ids y)" by auto
    with SplitNode False ne show ?thesis by simp
  qed
qed

lemma activate_exactly_one:
  "distinct (pane_ids t) \<Longrightarrow> j \<in> set (leaf_ids t)
    \<Longrightarrow> active_leaves (update_at j Pane_SetActive (Pane_ClearActive t)) = [j]"
  by (rule SetActive_one) simp_all

lemma Resize_pane_ids [simp]: "pane_ids (Pane_ResizeContent sz t) = pane_ids t"
  by (induction t arbitrary: sz) auto

lemma Resize_active_leaves [simp]: "active_leaves (Pane_ResizeContent sz t) = active_leaves t"
  by (induction t arbitrary: sz) auto

lemma Resize_paneId [simp]: "paneId (Pane_ResizeContent sz t) = paneId t"
  by (cases t) auto

lemma split_pane_ids_subset:
  "set (pane_ids (update_at j (split_leaf n1 n2 st pr c) t)) \<subseteq> set (pane_ids t) \<union> {n1, n2}"
  by (induction t) auto

lemma split_distinct:
  "distinct (pane_ids t) \<Longrightarrow> n1 \<noteq> n2 \<Longrightarrow> n1 \<notin> set (pane_ids t) \<Longrightarrow> n2 \<notin> set (pane_ids t)
    \<Longrightarrow> distinct (pane_ids (update_at j (split_leaf n1 n2 st pr c) t))"
proof (induction t)
  case (Leaf i p ctl a sz)
  then show ?case by auto
next
  case (SplitNode i s r a sz x y)
  have sx: "set (pane_ids (update_at j (split_leaf n1 n2 st pr c) x)) \<subseteq> set (pane_ids x) \<union> {n1, n2}"
    and sy: "set (pane_ids (update_at j (split_leaf n1 n2 st pr c) y)) \<subseteq> set (pane_ids y) \<union> {n1, n2}"
    by (rule split_pane_ids_subset)+
  from SplitNode show ?case using sx sy by (auto 0 3)
qed

lemma split_new_leaf:
  "find_pane j t = Some (Leaf i p c a sz)
    \<Longrightarrow> n2 \<in> set (leaf_ids (update_at j (split_leaf n1 n2 st pr ctl) t))"
proof (induction t)
  case (Leaf i' p' c' a' sz')
  then show ?case by (auto split: if_splits)
next
  case (SplitNode i' s r a' sz' x y)
  then show ?case
    by (auto split: if_splits option.splits simp: find_pane_None_iff dest: find_pane_Some_in)
qed

lemma split_paneId [simp]: "paneId (update_at j (split_leaf n1 n2 st pr c) t) = paneId t"
  by (cases t) auto

lemma promote_pane_ids: "set (pane_ids (promote i y)) \<subseteq> insert i (set (pane_ids y))"
  by (cases y) auto

lemma promote_distinct: "distinct (pane_ids y) \<Longrightarrow> i \<notin> set (pane_ids y) \<Longrightarrow> distinct (pane_ids (promote i y))"
  by (cases y) auto

lemma promote_paneId [simp]: "paneId (promote i y) = i"
  by (cases y) auto

lemma leftmost_leaf_in: "leftmost_leaf t \<in> set (leaf_ids t)"
  by (induction t) auto

lemma next_active_in: "next_active s \<in> set (leaf_ids s)"
  using active_leaves_subset [of s] leftmost_leaf_in [of s]
  by (auto simp: next_active_def split: list.splits)

lemma collapse_sound:
  "collapse c t = Some (t', l) \<Longrightarrow>
     l \<in> set (leaf_ids t') \<and> set (pane_ids t') \<subseteq> set (pane_ids t) \<and> paneId t' = paneId t
     \<and> (distinct (pane_ids t) \<longrightarrow> distinct (pane_ids t'))"
proof (induction t arbitrary: t' l)
  case (Leaf i p ctl a sz)
  then show ?case by simp
next
  case (SplitNode i st r a sz x y)
  show ?case
  proof (cases "is_leaf_at c x")
    case True
    with SplitNode.prems have "t' = promote i y" "l = next_active (promote i y)" by auto
    then show ?thesis
      using next_active_in [of "promote i y"] promote_pane_ids [of i y] promote_distinct [of y i]
      by auto
  next
    case nx: False
    show ?thesis
    proof (cases "is_leaf_at c y")
      case True
      with nx SplitNode.prems have "t' = promote i x" "l = next_active (promote i x)" by auto
      then show ?thesis
        using next_active_in [of "promote i x"] promote_pane_ids [of i x] promote_distinct [of x i]
        by auto
    next
      case ny: False
      show ?thesis
      proof (cases "collapse c x")
        case (Some r1)
        obtain x' l' where r1: "r1 = (x', l')" by (cases r1)
        with Some nx ny SplitNode.prems have e: "t' = SplitNode i st r a sz x' y" "l = l'" by auto
        from SplitNode.IH(1) [of x' l'] Some r1 show ?thesis unfolding e by auto
      next
        case None
        show ?thesis
        proof (cases "collapse c y")
          case (Some r2)
          obtain y' l' where r2: "r2 = (y', l')" by (cases r2)
          with Some None nx ny SplitNode.prems have e: "t' = SplitNode i st r a sz x y'" "l = l'" by auto
          from SplitNode.IH(2) [of y' l'] Some r2 show ?thesis unfolding e by auto
        next
          case N2: None
          with None nx ny SplitNode.prems show ?thesis by simp
        qed
      qed
    qed
  qed
qed

lemma entry_leaf_in: "entry_leaf d t \<in> set (leaf_ids t)"
  by (induction t) auto

lemma nav_target_in: "nav_target d t = Found l \<Longrightarrow> l \<in> set (leaf_ids t)"
  using entry_leaf_in
  by (induction t arbitrary: l) (auto split: nav.splits if_splits)

section \<open>Every run keeps the state well formed\<close>

lemma tab_inv_frame:
  "tab_inv w \<Longrightarrow> panes w' = panes w \<Longrightarrow> rootPane w' = rootPane w \<Longrightarrow> nextPane w' = nextPane w
    \<Longrightarrow> closedHandlers w' = closedHandlers w \<Longrightarrow> expired w' = expired w \<Longrightarrow> tab_inv w'"
  by (simp add: tab_inv_def tree_ok_def split: option.splits)

lemma inv_ctor: "tab_inv (Tab_ctor profile ctl titles)"
  by (simp add: tab_inv_def tree_ok_def Tab_ctor_def)

lemma inv_bind: "tab_inv w \<Longrightarrow> tab_inv (Tab_BindEventHandlers ctl w)"
  by (erule tab_inv_frame) (simp_all add: Tab_BindEventHandlers_def subscribe_GotFocus_def Tab_AttachEventHandlersToControl_def)

lemma update_at_rootPane: "paneId t = r \<Longrightarrow> update_at r f t = f t"
  using update_at_root [of t f] by simp

lemma inv_resize: "tab_inv w \<Longrightarrow> tab_inv (Tab_ResizeContent newSize w)"
  by (auto simp: tab_inv_def tree_ok_def Tab_ResizeContent_def update_at_rootPane
      split: option.splits)


lemma tree_ok_activate:
  assumes "tree_ok w t" "l \<in> set (leaf_ids t)"
  shows "tree_ok w (update_at l Pane_SetActive (Pane_ClearActive t))"
  using assms activate_exactly_one [of t l] by (simp add: tree_ok_def)

lemma Pane_Split_cases:
  "Pane_Split mn this n1 n2 st prof ctl t = ((None, None), t) \<or>
   (\<exists>i p c a sz. find_pane this t = Some (Leaf i p c a sz) \<and> Pane_CanSplit mn st (Leaf i p c a sz) \<and>
      Pane_Split mn this n1 n2 st prof ctl t =
        ((Some n1, Some n2),
         update_at n2 Pane_SetActive (Pane_ClearActive (update_at this (split_leaf n1 n2 st prof ctl) t))))"
  by (auto simp: Pane_Split_def split: option.splits Pane.splits)

lemma Tab_SplitPane_Inr:
  assumes "Tab_SplitPane mn st prof ctl w = Inr w'"
  obtains t i p c a sz where
    "panes w = Some t" "find_pane (activePane w) t = Some (Leaf i p c a sz)"
    "Pane_CanSplit mn st (Leaf i p c a sz)"
    "w' = w\<lparr>panes := Some (update_at (Suc (nextPane w)) Pane_SetActive
                (Pane_ClearActive (update_at (activePane w)
                   (split_leaf (nextPane w) (Suc (nextPane w)) st prof ctl) t))),
            nextPane := nextPane w + 2,
            titleChangedHandlers := titleChangedHandlers w @ [ctl],
            gotFocusHandlers := gotFocusHandlers w @ [nextPane w, Suc (nextPane w)]\<rparr>"
proof (cases "panes w")
  case None
  with assms show ?thesis
    by (simp add: Tab_SplitPane_def Tab_AttachEventHandlersToPane_def subscribe_GotFocus_def)
next
  case (Some t)
  from Pane_Split_cases [of mn "activePane w" "nextPane w" "Suc (nextPane w)" st prof ctl t]
  show ?thesis
  proof
    assume "Pane_Split mn (activePane w) (nextPane w) (Suc (nextPane w)) st prof ctl t = ((None, None), t)"
    with assms Some show ?thesis
      by (simp add: Tab_SplitPane_def Tab_AttachEventHandlersToPane_def subscribe_GotFocus_def)
  next
    assume "\<exists>i p c a sz. find_pane (activePane w) t = Some (Leaf i p c a sz) \<and>
      Pane_CanSplit mn st (Leaf i p c a sz) \<and>
      Pane_Split mn (activePane w) (nextPane w) (Suc (nextPane w)) st prof ctl t =
        ((Some (nextPane w), Some (Suc (nextPane w))),
         update_at (Suc (nextPane w)) Pane_SetActive (Pane_ClearActive (update_at (activePane w)
            (split_leaf (nextPane w) (Suc (nextPane w)) st prof ctl) t)))"
    then obtain i p c a sz where
      f: "find_pane (activePane w) t = Some (Leaf i p c a sz)"
      and cs: "Pane_CanSplit mn st (Leaf i p c a sz)"
      and sp: "Pane_Split mn (activePane w) (nextPane w) (Suc (nextPane w)) st prof ctl t =
        ((Some (nextPane w), Some (Suc (nextPane w))),
         update_at (Suc (nextPane w)) Pane_SetActive (Pane_ClearActive (update_at (activePane w)
            (split_leaf (nextPane w) (Suc (nextPane w)) st prof ctl) t)))"
      by blast
    from assms Some sp have
      "w' = w\<lparr>panes := Some (update_at (Suc (nextPane w)) Pane_SetActive
                (Pane_ClearActive (update_at (activePane w)
                   (split_leaf (nextPane w) (Suc (nextPane w)) st prof ctl) t))),
            nextPane := nextPane w + 2,
            titleChangedHandlers := titleChangedHandlers w @ [ctl],
            gotFocusHandlers := gotFocusHandlers w @ [nextPane w, Suc (nextPane w)]\<rparr>"
      by (simp add: Tab_SplitPane_def Tab_AttachEventHandlersToPane_def subscribe_GotFocus_def
          Tab_AttachEventHandlersToControl_def)
    with Some f cs show ?thesis by (rule that)
  qed
qed

lemma inv_split:
  assumes inv: "tab_inv w" and ok: "Tab_SplitPane mn st prof ctl w = Inr w'"
  shows "tab_inv w'"
proof -
  from ok obtain t i p c a sz where
    t: "panes w = Some t" and f: "find_pane (activePane w) t = Some (Leaf i p c a sz)"
    and w': "w' = w\<lparr>panes := Some (update_at (Suc (nextPane w)) Pane_SetActive
                (Pane_ClearActive (update_at (activePane w)
                   (split_leaf (nextPane w) (Suc (nextPane w)) st prof ctl) t))),
            nextPane := nextPane w + 2,
            titleChangedHandlers := titleChangedHandlers w @ [ctl],
            gotFocusHandlers := gotFocusHandlers w @ [nextPane w, Suc (nextPane w)]\<rparr>"
    by (rule Tab_SplitPane_Inr)
  define n where "n = nextPane w"
  define s where "s = update_at (activePane w) (split_leaf n (Suc n) st prof ctl) t"
  from inv t have tok: "paneId t = rootPane w" "distinct (pane_ids t)"
    "\<forall>i \<in> set (pane_ids t). i < n"
    and rest: "closedHandlers w = [rootPane w]" "\<not> expired w"
    by (simp_all add: tab_inv_def tree_ok_def n_def)
  from tok(3) have fresh: "n \<notin> set (pane_ids t)" "Suc n \<notin> set (pane_ids t)" by auto
  have d: "distinct (pane_ids s)"
    unfolding s_def using tok(2) fresh by (intro split_distinct) simp_all
  have sub: "set (pane_ids s) \<subseteq> set (pane_ids t) \<union> {n, Suc n}"
    unfolding s_def by (rule split_pane_ids_subset)
  have l: "Suc n \<in> set (leaf_ids s)"
    unfolding s_def using f by (rule split_new_leaf)
  have one: "active_leaves (update_at (Suc n) Pane_SetActive (Pane_ClearActive s)) = [Suc n]"
    using d l by (rule activate_exactly_one)
  have bound: "\<forall>i \<in> set (pane_ids s). i < n + 2"
    using sub tok(3) by fastforce
  have "tree_ok w' (update_at (Suc n) Pane_SetActive (Pane_ClearActive s))"
    using d one bound tok(1) by (simp add: tree_ok_def w' s_def n_def)
  then show ?thesis using rest by (simp add: tab_inv_def w' s_def n_def)
qed

lemma inv_navigate: "tab_inv w \<Longrightarrow> tab_inv (Tab_NavigateFocus d w)"
proof (cases "panes w")
  case None
  assume "tab_inv w"
  with None show ?thesis by (simp add: tab_inv_def Tab_NavigateFocus_def)
next
  case (Some t)
  assume inv: "tab_inv w"
  with Some have tok: "tree_ok w t" by (simp add: tab_inv_def)
  then have r: "paneId t = rootPane w" by (simp add: tree_ok_def)
  have "tree_ok w (snd (Pane_NavigateFocus d t))"
    using tok tree_ok_activate [OF tok nav_target_in]
    by (auto simp: Pane_NavigateFocus_def split: nav.splits)
  then have "tree_ok (Tab_NavigateFocus d w) (snd (Pane_NavigateFocus d t))"
    by (simp add: tree_ok_def Tab_NavigateFocus_def)
  with inv Some r show ?thesis
    by (simp add: tab_inv_def Tab_NavigateFocus_def update_at_rootPane)
qed

lemma Closed_handler_fields [simp]:
  "panes (Closed_handler w) = panes w" "rootPane (Closed_handler w) = rootPane w"
  "nextPane (Closed_handler w) = nextPane w" "closedHandlers (Closed_handler w) = closedHandlers w"
  "expired (Closed_handler w) = expired w"
  by (simp_all add: Closed_handler_def)

lemma Closed_handler_funpow_fields [simp]:
  "panes ((Closed_handler ^^ n) w) = panes w" "rootPane ((Closed_handler ^^ n) w) = rootPane w"
  "nextPane ((Closed_handler ^^ n) w) = nextPane w"
  "closedHandlers ((Closed_handler ^^ n) w) = closedHandlers w"
  "expired ((Closed_handler ^^ n) w) = expired w"
  by (induction n) simp_all

lemma inv_close: "tab_inv w \<Longrightarrow> tab_inv (Tab_ClosePane w)"
proof (cases "panes w")
  case None
  assume "tab_inv w"
  with None show ?thesis by (simp add: Tab_ClosePane_def)
next
  case (Some t)
  assume inv: "tab_inv w"
  with Some have tok: "tree_ok w t" and rest: "closedHandlers w = [rootPane w]" "\<not> expired w"
    by (simp_all add: tab_inv_def)
  obtain res ps where pc: "Pane_Close (activePane w) t = (res, ps)" by (cases "Pane_Close (activePane w) t")
  have ps: "ps = None \<or> (\<exists>t'. ps = Some t' \<and> tree_ok w t')"
  proof (cases "Option.bind (find_pane (activePane w) t) target_leaf")
    case None
    with pc tok show ?thesis by (auto simp: Pane_Close_def)
  next
    case (Some l)
    show ?thesis
    proof (cases t)
      case (Leaf i p c a sz)
      with Some pc show ?thesis by (auto simp: Pane_Close_def)
    next
      case (SplitNode i st r a sz x y)
      show ?thesis
      proof (cases "collapse (paneId l) t")
        case None
        with Some SplitNode pc tok show ?thesis by (auto simp: Pane_Close_def)
      next
        case C: (Some r1)
        obtain t' n where r1: "r1 = (t', n)" by (cases r1)
        from collapse_sound [of "paneId l" t t' n] C r1
        have n: "n \<in> set (leaf_ids t')" and sub: "set (pane_ids t') \<subseteq> set (pane_ids t)"
          and pid: "paneId t' = paneId t" and d: "distinct (pane_ids t) \<longrightarrow> distinct (pane_ids t')"
          by simp_all
        from tok sub pid d have "paneId t' = rootPane w" "distinct (pane_ids t')"
          "\<forall>i \<in> set (pane_ids t'). i < nextPane w"
          by (auto simp: tree_ok_def)
        with n have "tree_ok w (update_at n Pane_SetActive (Pane_ClearActive t'))"
          using activate_exactly_one [of t' n] by (simp add: tree_ok_def)
        moreover from Some SplitNode C r1 pc
        have "ps = Some (update_at n Pane_SetActive (Pane_ClearActive t'))"
          by (auto simp: Pane_Close_def)
        ultimately show ?thesis by simp
      qed
    qed
  qed
  have "tab_inv (w\<lparr>panes := ps\<rparr>)"
    using ps rest by (auto simp: tab_inv_def tree_ok_def)
  then have "tab_inv ((Closed_handler ^^ k) (w\<lparr>panes := ps\<rparr>))" for k
    by (rule tab_inv_frame) simp_all
  with \<open>tab_inv (w\<lparr>panes := ps\<rparr>)\<close> Some pc show ?thesis
    by (cases res) (simp_all add: Tab_ClosePane_def raise_Closed_def)
qed


lemma GotFocus_handler_tree:
  assumes "panes w = Some t" "paneId t = rootPane w" "\<not> expired w" "sender \<noteq> activePane w"
  shows "panes (GotFocus_handler sender w)
           = Some (update_at sender Pane_SetActive (Pane_ClearActive t))"
  using assms
  by (simp add: GotFocus_handler_def Let_def Tab_SetTabText_def update_at_rootPane)

lemma GotFocus_handler_frame [simp]:
  "rootPane (GotFocus_handler s w) = rootPane w" "nextPane (GotFocus_handler s w) = nextPane w"
  "closedHandlers (GotFocus_handler s w) = closedHandlers w"
  "expired (GotFocus_handler s w) = expired w"
  "gotFocusHandlers (GotFocus_handler s w) = gotFocusHandlers w"
  by (simp_all add: GotFocus_handler_def Let_def Tab_SetTabText_def)

lemma inv_GotFocus_handler:
  assumes "tab_inv w" "leaf_of s w"
  shows "tab_inv (GotFocus_handler s w) \<and> leaf_of s (GotFocus_handler s w)"
proof (cases "s = activePane w")
  case True
  with assms show ?thesis by (simp add: GotFocus_handler_def)
next
  case False
  from assms obtain t where t: "panes w = Some t" and l: "s \<in> set (leaf_ids t)"
    by (auto simp: leaf_of_def split: option.splits)
  from assms(1) t have tok: "tree_ok w t" and rest: "closedHandlers w = [rootPane w]" "\<not> expired w"
    by (simp_all add: tab_inv_def)
  from tok have r: "paneId t = rootPane w" by (simp add: tree_ok_def)
  have p: "panes (GotFocus_handler s w) = Some (update_at s Pane_SetActive (Pane_ClearActive t))"
    using t r rest(2) False by (rule GotFocus_handler_tree)
  have "tree_ok w (update_at s Pane_SetActive (Pane_ClearActive t))"
    using tok l by (rule tree_ok_activate)
  then have "tree_ok (GotFocus_handler s w) (update_at s Pane_SetActive (Pane_ClearActive t))"
    by (simp add: tree_ok_def)
  with p rest l show ?thesis by (simp add: tab_inv_def leaf_of_def)
qed

lemma inv_GotFocus_funpow:
  "tab_inv w \<Longrightarrow> leaf_of s w
    \<Longrightarrow> tab_inv ((GotFocus_handler s ^^ n) w) \<and> leaf_of s ((GotFocus_handler s ^^ n) w)"
  by (induction n) (simp_all add: inv_GotFocus_handler)

lemma inv_raise_GotFocus:
  "tab_inv w \<Longrightarrow> panes w = Some t \<Longrightarrow> s \<in> set (leaf_ids t) \<Longrightarrow> tab_inv (raise_GotFocus s w)"
  using inv_GotFocus_funpow [of w s "count_list (gotFocusHandlers w) s"]
  by (simp add: raise_GotFocus_def leaf_of_def)

lemma TitleChanged_handler_frame [simp]:
  "panes (TitleChanged_handler nt w) = panes w" "rootPane (TitleChanged_handler nt w) = rootPane w"
  "nextPane (TitleChanged_handler nt w) = nextPane w"
  "closedHandlers (TitleChanged_handler nt w) = closedHandlers w"
  "expired (TitleChanged_handler nt w) = expired w"
  by (simp_all add: TitleChanged_handler_def Tab_SetTabText_def)

lemma TitleChanged_funpow_frame [simp]:
  "panes ((TitleChanged_handler nt ^^ n) w) = panes w"
  "rootPane ((TitleChanged_handler nt ^^ n) w) = rootPane w"
  "nextPane ((TitleChanged_handler nt ^^ n) w) = nextPane w"
  "closedHandlers ((TitleChanged_handler nt ^^ n) w) = closedHandlers w"
  "expired ((TitleChanged_handler nt ^^ n) w) = expired w"
  by (induction n) simp_all

lemma inv_raise_TitleChanged: "tab_inv w \<Longrightarrow> tab_inv (raise_TitleChanged ctl nt w)"
  by (erule tab_inv_frame) (simp_all add: raise_TitleChanged_def)

lemma inv_SetFocused: "tab_inv w \<Longrightarrow> tab_inv (Tab_SetFocused b w)"
  by (erule tab_inv_frame)
    (simp_all add: Tab_SetFocused_def Tab_Focus_def Let_def split: option.splits)

lemma inv_UpdateIcon: "tab_inv w \<Longrightarrow> tab_inv (Tab_UpdateIcon iconPath w)"
  by (erule tab_inv_frame) (simp_all add: Tab_UpdateIcon_def Let_def)

lemma inv_run_task: "tab_inv w \<Longrightarrow> tab_inv (run_task k w)"
  by (erule tab_inv_frame) (cases k; simp)+

lemma reachable_inv: "reachable mn w \<Longrightarrow> tab_inv w"
proof (induction rule: reachable.induct)
  case (construct profile ctl titles)
  show ?case by (rule inv_ctor)
next
  case (bind w ctl)
  then show ?case by (simp add: inv_bind)
next
  case (resize w newSize)
  then show ?case by (simp add: inv_resize)
next
  case (split w splitType profile ctl w')
  then show ?case by (blast intro: inv_split)
next
  case (close w)
  then show ?case by (simp add: inv_close)
next
  case (navigate w direction)
  then show ?case by (simp add: inv_navigate)
next
  case (gotFocus w t sender)
  then show ?case by (blast intro: inv_raise_GotFocus)
next
  case (titleChanged w ctl newTitle)
  then show ?case by (simp add: inv_raise_TitleChanged)
next
  case (setFocused w b)
  then show ?case by (simp add: inv_SetFocused)
next
  case (updateIcon w iconPath)
  then show ?case by (simp add: inv_UpdateIcon)
next
  case (dispatch w k)
  then show ?case by (simp add: inv_run_task)
qed

section \<open>The concrete run, evaluated\<close>

lemma example_tab1_eq:
  "example_tab1 =
     \<lparr> panes = Some (Leaf 0 7 9 True (80, 24)), nextPane = 1, rootPane = 0, activePane = 0,
       focused = False, lastIconPath = [], tabViewItem = \<lparr> Header = [], IconSource = [] \<rparr>,
       expired = False, title = example_titles, gotFocusHandlers = [0], closedHandlers = [0],
       titleChangedHandlers = [9], outbox = [] \<rparr>"
  by (simp add: example_tab1_def example_tab0_def Tab_ResizeContent_def Tab_BindEventHandlers_def subscribe_GotFocus_def
      Tab_AttachEventHandlersToControl_def Tab_ctor_def)

lemma example_split:
  "Tab_SplitPane example_min Vertical 8 10 example_tab1 = Inr example_tab2"
  by (simp add: example_tab1_eq example_tab2_def example_tree2_def example_min_def
      Tab_SplitPane_def Pane_Split_def fits_def Tab_AttachEventHandlersToPane_def subscribe_GotFocus_def
      Tab_AttachEventHandlersToControl_def)

lemma example_tab2_reachable: "reachable example_min example_tab2"
proof -
  have "reachable example_min example_tab0"
    unfolding example_tab0_def by (intro reachable.bind reachable.construct)
  then have "reachable example_min example_tab1"
    unfolding example_tab1_def by (rule reachable.resize)
  then show ?thesis using example_split by (rule reachable.split)
qed

text \<open>
  The scenario of section 8 of the spec, on the tree operations: a leaf A of 80 by 24 is
  split to the right for B, B is active and focus cannot move further right; focus moves
  left to A; A is split downwards for C, C is active; closing C collapses back to A beside
  B with A active; closing A leaves the single leaf B, active; closing B empties the tree.
\<close>

lemma spec_scenario:
  "Pane_Split (10, 5) 0 1 2 Vertical 8 10 (Leaf 0 7 9 True (80, 24))
     = ((Some 1, Some 2), example_tree2)"
  "Pane_NavigateFocus Right example_tree2 = (False, example_tree2)"
  "Pane_NavigateFocus Left example_tree2
     = (True, SplitNode 0 Vertical (1 / 2) False (80, 24)
                (Leaf 1 7 9 True (40, 24)) (Leaf 2 8 10 False (40, 24)))"
  "Pane_Split (10, 5) 1 3 4 Horizontal 11 12
       (SplitNode 0 Vertical (1 / 2) False (80, 24)
          (Leaf 1 7 9 True (40, 24)) (Leaf 2 8 10 False (40, 24)))
     = ((Some 3, Some 4),
        SplitNode 0 Vertical (1 / 2) False (80, 24)
          (SplitNode 1 Horizontal (1 / 2) False (40, 24)
             (Leaf 3 7 9 False (40, 12)) (Leaf 4 11 12 True (40, 12)))
          (Leaf 2 8 10 False (40, 24)))"
  "Pane_Close 4
       (SplitNode 0 Vertical (1 / 2) False (80, 24)
          (SplitNode 1 Horizontal (1 / 2) False (40, 24)
             (Leaf 3 7 9 False (40, 12)) (Leaf 4 11 12 True (40, 12)))
          (Leaf 2 8 10 False (40, 24)))
     = (StillHasSiblings,
        Some (SplitNode 0 Vertical (1 / 2) False (80, 24)
                (Leaf 1 7 9 True (40, 12)) (Leaf 2 8 10 False (40, 24))))"
  "Pane_Close 1
       (SplitNode 0 Vertical (1 / 2) False (80, 24)
          (Leaf 1 7 9 True (40, 12)) (Leaf 2 8 10 False (40, 24)))
     = (StillHasSiblings, Some (Leaf 0 8 10 True (40, 24)))"
  "Pane_Close 0 (Leaf 0 8 10 True (40, 24)) = (TreeEmptied, None)"
  by (simp_all add: Pane_Split_def Pane_NavigateFocus_def Pane_Close_def fits_def
      example_tree2_def next_active_def)

section \<open>Further facts used by the claims\<close>

lemma find_pane_ClearActive:
  "find_pane j (Pane_ClearActive t) = map_option Pane_ClearActive (find_pane j t)"
  by (induction t) (auto split: option.splits)

lemma find_pane_update_at:
  "(\<And>s. paneId (f s) = paneId s) \<Longrightarrow> find_pane j (update_at j f t) = map_option f (find_pane j t)"
proof (induction t)
  case (Leaf i p c a sz)
  then show ?case using find_pane_root [of "f (Leaf i p c a sz)"] by auto
next
  case (SplitNode i st r a sz x y)
  show ?case
  proof (cases "i = j")
    case True
    then show ?thesis
      using find_pane_root [of "f (SplitNode i st r a sz x y)"] SplitNode.prems by auto
  next
    case False
    then show ?thesis
      using SplitNode find_pane_None_iff [of j x]
      by (cases "find_pane j x") auto
  qed
qed

lemma SetActive_paneId_node: "paneId (Pane_SetActive s) = paneId s"
  by (cases s) auto

lemma active_leaves_SetActive:
  "set (active_leaves (update_at j Pane_SetActive t)) \<subseteq> insert j (set (active_leaves t))"
  by (induction t) auto

lemma split_first_leaf:
  "find_pane j t = Some (Leaf i p c a sz)
    \<Longrightarrow> n1 \<in> set (leaf_ids (update_at j (split_leaf n1 n2 st pr ctl) t))"
proof (induction t)
  case (Leaf i' p' c' a' sz')
  then show ?case by (auto split: if_splits)
next
  case (SplitNode i' s r a' sz' x y)
  then show ?case
    by (auto split: if_splits option.splits simp: find_pane_None_iff dest: find_pane_Some_in)
qed



lemma target_leaf_is_leaf: "target_leaf p = Some l \<Longrightarrow> \<exists>i pr c a sz. l = Leaf i pr c a sz"
  by (induction p) (auto split: if_splits)

lemma no_control_no_profile:
  "Pane_GetTerminalControl p = None \<longleftrightarrow> Pane_GetFocusedProfile p = None"
  by (cases p) auto

lemma example_tab3_eq: "example_tab3 = example_tab1\<lparr>panes := None, outbox := [Raise Closed]\<rparr>"
  by (simp add: example_tab3_def example_tab1_eq Tab_ClosePane_def Pane_Close_def
      raise_Closed_def Closed_handler_def)

lemma example_tab1_reachable: "reachable example_min example_tab1"
  unfolding example_tab1_def example_tab0_def
  by (intro reachable.resize reachable.bind reachable.construct)

lemma GetActiveTitle_outbox [simp]:
  "Tab_GetActiveTitle (w\<lparr>outbox := ob\<rparr>) = Tab_GetActiveTitle w"
  by (simp add: Tab_GetActiveTitle_def Tab_GetActiveTerminalControl_def the_pane_def
      split: option.splits)

lemma TitleChanged_funpow:
  "\<not> expired w \<Longrightarrow>
     (TitleChanged_handler newTitle ^^ n) w
       = w\<lparr>outbox := outbox w @ replicate n (RunAsync (SetHeader (Tab_GetActiveTitle w)))\<rparr>"
proof (induction n)
  case 0
  then show ?case by simp
next
  case (Suc n)
  then show ?case
    by (simp add: TitleChanged_handler_def Tab_SetTabText_def replicate_append_same)
qed

lemma GetActiveTitle_other_control:
  "Tab_GetActiveTerminalControl w \<noteq> Some ctl
    \<Longrightarrow> Tab_GetActiveTitle (w\<lparr>title := (title w)(ctl := newTitle)\<rparr>) = Tab_GetActiveTitle w"
  by (auto simp: Tab_GetActiveTitle_def Tab_GetActiveTerminalControl_def the_pane_def
      split: option.splits)

section \<open>The claims\<close>

text \<open>
  Claim C1. Along every run (SplitPane, ClosePane, NavigateFocus, ResizeContent, GotFocus
  raised by a leaf, and the operations that do not touch the tree), whenever the pane tree
  is non-empty exactly one leaf has \<open>isActive\<close> set. In particular, when a leaf that is not
  the tracked active pane raises GotFocus, the handler clears the flag across the whole
  tree and then sets it on the sender, so that the sender is the one active leaf whatever
  the flags were before.
\<close>

theorem single_active_leaf:
  "(reachable mn w \<and> panes w = Some t \<longrightarrow> length (active_leaves t) = 1) \<and>
   (panes w = Some t \<and> paneId t = rootPane w \<and> distinct (pane_ids t) \<and>
    sender \<in> set (leaf_ids t) \<and> \<not> expired w \<and> sender \<noteq> activePane w \<longrightarrow>
      panes (GotFocus_handler sender w)
        = Some (update_at sender Pane_SetActive (Pane_ClearActive t)) \<and>
      active_leaves (update_at sender Pane_SetActive (Pane_ClearActive t)) = [sender])"
proof (intro conjI impI)
  assume "reachable mn w \<and> panes w = Some t"
  then have "tab_inv w" "panes w = Some t" by (auto intro: reachable_inv)
  then show "length (active_leaves t) = 1" by (simp add: tab_inv_def tree_ok_def)
next
  assume a: "panes w = Some t \<and> paneId t = rootPane w \<and> distinct (pane_ids t) \<and>
    sender \<in> set (leaf_ids t) \<and> \<not> expired w \<and> sender \<noteq> activePane w"
  then show "panes (GotFocus_handler sender w)
        = Some (update_at sender Pane_SetActive (Pane_ClearActive t))"
    by (simp add: GotFocus_handler_tree)
  from a show "active_leaves (update_at sender Pane_SetActive (Pane_ClearActive t)) = [sender]"
    by (simp add: activate_exactly_one)
qed

theorem single_active_leaf_witness:
  "length (active_leaves example_tree2) = 1 \<and>
   panes (GotFocus_handler 1 example_tab2)
     = Some (update_at 1 Pane_SetActive (Pane_ClearActive example_tree2)) \<and>
   active_leaves (update_at 1 Pane_SetActive (Pane_ClearActive example_tree2)) = [1]"
  using single_active_leaf [of example_min example_tab2 example_tree2 1] example_tab2_reachable
  by (simp add: example_tab2_def example_tree2_def)

text \<open>
  Claim C2. Let the tab exist, let its root pointer be the root of the tree, and let the
  sender of GotFocus be a leaf of the tree with control \<open>c\<close>. If the sender is not the tracked
  active pane, the handler leaves the state with every flag of the tree cleared and the
  sender's set, with \<open>activePane\<close> the sender, and with two more calls made, in this order:
  the header update carrying the title of the sender's control, handed to the dispatcher
  by \<open>SetTabText\<close>, and the tab's own ActivePaneChanged. If the sender is the tracked active
  pane, the state is unchanged: nothing is raised.
\<close>

theorem GotFocus_handler_effect:
  assumes "panes w = Some t" and "paneId t = rootPane w"
    and "find_pane sender t = Some (Leaf i p c a sz)" and "\<not> expired w"
  shows "(sender \<noteq> activePane w \<longrightarrow>
            GotFocus_handler sender w =
              w\<lparr>panes := Some (update_at sender Pane_SetActive (Pane_ClearActive t)),
                activePane := sender,
                outbox := outbox w @ [RunAsync (SetHeader (title w c)), Raise ActivePaneChanged]\<rparr> \<and>
            find_pane sender (update_at sender Pane_SetActive (Pane_ClearActive t))
              = Some (Leaf i p c True sz) \<and>
            set (active_leaves (update_at sender Pane_SetActive (Pane_ClearActive t))) \<subseteq> {sender}) \<and>
         (sender = activePane w \<longrightarrow> GotFocus_handler sender w = w)"
proof -
  let ?t' = "update_at sender Pane_SetActive (Pane_ClearActive t)"
  have f': "find_pane sender ?t' = Some (Leaf i p c True sz)"
    using assms(3) by (simp add: find_pane_update_at SetActive_paneId_node find_pane_ClearActive)
  have act: "set (active_leaves ?t') \<subseteq> {sender}"
    using active_leaves_SetActive [of sender "Pane_ClearActive t"] by simp
  have same: "sender = activePane w \<Longrightarrow> GotFocus_handler sender w = w"
    by (simp add: GotFocus_handler_def)
  have eq: "GotFocus_handler sender w =
              w\<lparr>panes := Some ?t', activePane := sender,
                outbox := outbox w @ [RunAsync (SetHeader (title w c)), Raise ActivePaneChanged]\<rparr>"
    if "sender \<noteq> activePane w"
    using that assms(1,2,4) f'
    by (simp add: GotFocus_handler_def Let_def Tab_SetTabText_def Tab_GetActiveTitle_def
        Tab_GetActiveTerminalControl_def the_pane_def update_at_rootPane)
  from f' act same eq show ?thesis by blast
qed

theorem GotFocus_handler_effect_witness:
  "GotFocus_handler 2 example_tab2 =
     example_tab2\<lparr>panes := Some (update_at 2 Pane_SetActive (Pane_ClearActive example_tree2)),
       activePane := 2,
       outbox := outbox example_tab2 @ [RunAsync (SetHeader (title example_tab2 10)), Raise ActivePaneChanged]\<rparr> \<and>
   find_pane 2 (update_at 2 Pane_SetActive (Pane_ClearActive example_tree2))
     = Some (Leaf 2 8 10 True (40, 24)) \<and>
   set (active_leaves (update_at 2 Pane_SetActive (Pane_ClearActive example_tree2))) \<subseteq> {2} \<and>
   GotFocus_handler 0 example_tab1 = example_tab1"
  using GotFocus_handler_effect [of example_tab2 example_tree2 2 2 8 10 True "(40, 24)"]
    GotFocus_handler_effect [of example_tab1 "Leaf 0 7 9 True (80, 24)" 0 0 7 9 True "(80, 24)"]
  by (simp add: example_tab2_def example_tree2_def example_tab1_eq)

text \<open>
  Claim C3 says that the tab subscribes to GotFocus and to Closed of every leaf it creates:
  the root at construction and both panes of every successful SplitPane. In the concrete
  run the split creates the leaves 1 and 2, and the only pane with a Closed subscription is
  still the root 0; and right after construction no pane has a GotFocus subscription.
\<close>

theorem subscriptions_counterexample:
  "Tab_SplitPane example_min Vertical 8 10 example_tab1 = Inr example_tab2 \<and>
   panes example_tab2 = Some example_tree2 \<and> leaf_ids example_tree2 = [1, 2] \<and>
   1 \<notin> set (closedHandlers example_tab2) \<and> 2 \<notin> set (closedHandlers example_tab2) \<and>
   rootPane (Tab_ctor 7 9 example_titles) \<notin> set (gotFocusHandlers (Tab_ctor 7 9 example_titles))"
  using example_split
  by (simp add: example_tab2_def example_tree2_def Tab_ctor_def)

text \<open>
  Claim C3, amended. The constructor subscribes to Closed of the root pane and to no
  GotFocus; \<open>BindEventHandlers\<close> subscribes to GotFocus of the root pane; every successful
  \<open>SplitPane\<close> subscribes to GotFocus of exactly the two panes the split returns, which are
  leaves of the new tree, and adds no Closed subscription.
\<close>

theorem subscriptions:
  "gotFocusHandlers (Tab_ctor profile0 ctl0 titles) = [] \<and>
   closedHandlers (Tab_ctor profile0 ctl0 titles) = [rootPane (Tab_ctor profile0 ctl0 titles)] \<and>
   gotFocusHandlers (Tab_BindEventHandlers ctl1 w1) = gotFocusHandlers w1 @ [rootPane w1] \<and>
   closedHandlers (Tab_BindEventHandlers ctl1 w1) = closedHandlers w1 \<and>
   (Tab_SplitPane mn splitType profile ctl w = Inr w' \<longrightarrow>
      gotFocusHandlers w' = gotFocusHandlers w @ [nextPane w, Suc (nextPane w)] \<and>
      closedHandlers w' = closedHandlers w \<and>
      (\<exists>t t'. panes w = Some t \<and> panes w' = Some t' \<and>
         Pane_Split mn (activePane w) (nextPane w) (Suc (nextPane w)) splitType profile ctl t
           = ((Some (nextPane w), Some (Suc (nextPane w))), t') \<and>
         nextPane w \<in> set (leaf_ids t') \<and> Suc (nextPane w) \<in> set (leaf_ids t')))"
proof (intro conjI impI)
  assume ok: "Tab_SplitPane mn splitType profile ctl w = Inr w'"
  then obtain t i p c a sz where
    t: "panes w = Some t" and f: "find_pane (activePane w) t = Some (Leaf i p c a sz)"
    and cs: "Pane_CanSplit mn splitType (Leaf i p c a sz)"
    and w': "w' = w\<lparr>panes := Some (update_at (Suc (nextPane w)) Pane_SetActive
                (Pane_ClearActive (update_at (activePane w)
                   (split_leaf (nextPane w) (Suc (nextPane w)) splitType profile ctl) t))),
            nextPane := nextPane w + 2,
            titleChangedHandlers := titleChangedHandlers w @ [ctl],
            gotFocusHandlers := gotFocusHandlers w @ [nextPane w, Suc (nextPane w)]\<rparr>"
    by (rule Tab_SplitPane_Inr)
  show "gotFocusHandlers w' = gotFocusHandlers w @ [nextPane w, Suc (nextPane w)]"
    by (simp add: w')
  show "closedHandlers w' = closedHandlers w" by (simp add: w')
  let ?t' = "update_at (Suc (nextPane w)) Pane_SetActive
                (Pane_ClearActive (update_at (activePane w)
                   (split_leaf (nextPane w) (Suc (nextPane w)) splitType profile ctl) t))"
  have "Pane_Split mn (activePane w) (nextPane w) (Suc (nextPane w)) splitType profile ctl t
           = ((Some (nextPane w), Some (Suc (nextPane w))), ?t')"
    using f cs by (simp add: Pane_Split_def del: Pane_CanSplit.simps)
  moreover have "nextPane w \<in> set (leaf_ids ?t')"
    using split_first_leaf [OF f] by simp
  moreover have "Suc (nextPane w) \<in> set (leaf_ids ?t')"
    using split_new_leaf [OF f] by simp
  ultimately show "\<exists>t t'. panes w = Some t \<and> panes w' = Some t' \<and>
         Pane_Split mn (activePane w) (nextPane w) (Suc (nextPane w)) splitType profile ctl t
           = ((Some (nextPane w), Some (Suc (nextPane w))), t') \<and>
         nextPane w \<in> set (leaf_ids t') \<and> Suc (nextPane w) \<in> set (leaf_ids t')"
    using t by (simp add: w')
qed (simp_all add: Tab_ctor_def Tab_BindEventHandlers_def subscribe_GotFocus_def Tab_AttachEventHandlersToControl_def)

theorem subscriptions_witness:
  "gotFocusHandlers example_tab2
     = gotFocusHandlers example_tab1 @ [nextPane example_tab1, Suc (nextPane example_tab1)] \<and>
   closedHandlers example_tab2 = closedHandlers example_tab1 \<and>
   (\<exists>t t'. panes example_tab1 = Some t \<and> panes example_tab2 = Some t' \<and>
      Pane_Split example_min (activePane example_tab1) (nextPane example_tab1)
          (Suc (nextPane example_tab1)) Vertical 8 10 t
        = ((Some (nextPane example_tab1), Some (Suc (nextPane example_tab1))), t') \<and>
      nextPane example_tab1 \<in> set (leaf_ids t') \<and>
      Suc (nextPane example_tab1) \<in> set (leaf_ids t'))"
  using subscriptions [of 7 9 example_titles 9 example_tab1 example_min Vertical 8 10
      example_tab1 example_tab2] example_split
  by blast



text \<open>
  Claim C5. The three queries are const member functions: they are functions of the state
  that return a value and no state. \<open>GetActiveTerminalControl\<close> and \<open>GetFocusedProfile\<close> are
  the pane's own accessors on the object \<open>_activePane\<close> points to, and \<open>GetActiveTitle\<close> is
  the title of the control the first one returns; on a leaf they give its control, its
  profile and the title of its control. When the tree is empty all three give the empty
  value, and whenever there is no active control the title is the empty string and the
  profile is absent.
\<close>

theorem active_pane_queries:
  "Tab_GetActiveTerminalControl w = Option.bind (the_pane (activePane w) w) Pane_GetTerminalControl \<and>
   Tab_GetFocusedProfile w = Option.bind (the_pane (activePane w) w) Pane_GetFocusedProfile \<and>
   Tab_GetActiveTitle w =
     (case Tab_GetActiveTerminalControl w of None \<Rightarrow> [] | Some c \<Rightarrow> title w c) \<and>
   (the_pane (activePane w) w = Some (Leaf i p c a sz) \<longrightarrow>
      Tab_GetActiveTerminalControl w = Some c \<and> Tab_GetFocusedProfile w = Some p \<and>
      Tab_GetActiveTitle w = title w c) \<and>
   (panes w = None \<longrightarrow>
      Tab_GetActiveTerminalControl w = None \<and> Tab_GetFocusedProfile w = None \<and>
      Tab_GetActiveTitle w = []) \<and>
   (Tab_GetActiveTerminalControl w = None \<longrightarrow>
      Tab_GetFocusedProfile w = None \<and> Tab_GetActiveTitle w = [])"
proof -
  have "Tab_GetFocusedProfile w = None" if "Tab_GetActiveTerminalControl w = None"
    using that no_control_no_profile
    by (cases "the_pane (activePane w) w")
      (auto simp: Tab_GetActiveTerminalControl_def Tab_GetFocusedProfile_def)
  then show ?thesis
    by (auto simp: Tab_GetActiveTerminalControl_def Tab_GetFocusedProfile_def
        Tab_GetActiveTitle_def the_pane_def split: option.splits)
qed

theorem active_pane_queries_witness:
  "Tab_GetActiveTerminalControl example_tab1 = Some 9 \<and>
   Tab_GetFocusedProfile example_tab1 = Some 7 \<and>
   Tab_GetActiveTitle example_tab1 = title example_tab1 9 \<and>
   Tab_GetActiveTerminalControl example_tab3 = None \<and>
   Tab_GetFocusedProfile example_tab3 = None \<and>
   Tab_GetActiveTitle example_tab3 = [] \<and>
   Tab_GetActiveTerminalControl example_tab2 = None \<and>
   Tab_GetFocusedProfile example_tab2 = None \<and>
   Tab_GetActiveTitle example_tab2 = []"
proof -
  have 1: "the_pane (activePane example_tab1) example_tab1 = Some (Leaf 0 7 9 True (80, 24))"
    by (simp add: example_tab1_eq the_pane_def)
  have 3: "panes example_tab3 = None" by (simp add: example_tab3_eq)
  have 2: "Tab_GetActiveTerminalControl example_tab2 = None"
    using active_pane_queries [of example_tab2 0 0 0 False "(0, 0)"]
    by (simp add: example_tab2_def example_tree2_def the_pane_def)
  from active_pane_queries [of example_tab1 0 7 9 True "(80, 24)"] 1
  have a: "Tab_GetActiveTerminalControl example_tab1 = Some 9 \<and>
      Tab_GetFocusedProfile example_tab1 = Some 7 \<and>
      Tab_GetActiveTitle example_tab1 = title example_tab1 9"
    by blast
  from active_pane_queries [of example_tab3 0 0 0 False "(0, 0)"] 3
  have b: "Tab_GetActiveTerminalControl example_tab3 = None \<and>
      Tab_GetFocusedProfile example_tab3 = None \<and> Tab_GetActiveTitle example_tab3 = []"
    by blast
  from active_pane_queries [of example_tab2 0 0 0 False "(0, 0)"] 2
  have c: "Tab_GetFocusedProfile example_tab2 = None \<and> Tab_GetActiveTitle example_tab2 = []"
    by blast
  from a b c 2 show ?thesis by blast
qed

text \<open>
  Claim C6. The lambda on the root pane's Closed event appends the tab's own Closed to the
  calls made, in every state (it tests nothing, not even that the tab exists). In every
  state of a run it is registered exactly once, on the root pane, so the tree raising
  Closed on its root makes the tab raise Closed exactly once; in particular \<open>ClosePane\<close>
  closing the last leaf empties the tree and raises the tab's Closed.
\<close>

theorem closed_is_forwarded:
  "Closed_handler w0 = w0\<lparr>outbox := outbox w0 @ [Raise Closed]\<rparr> \<and>
   (reachable mn w \<longrightarrow>
      closedHandlers w = [rootPane w] \<and>
      raise_Closed (rootPane w) w = w\<lparr>outbox := outbox w @ [Raise Closed]\<rparr> \<and>
      (\<forall>t ps. panes w = Some t \<and> Pane_Close (activePane w) t = (TreeEmptied, ps) \<longrightarrow>
         Tab_ClosePane w = w\<lparr>panes := None, outbox := outbox w @ [Raise Closed]\<rparr>))"
proof (intro conjI impI allI)
  show "Closed_handler w0 = w0\<lparr>outbox := outbox w0 @ [Raise Closed]\<rparr>"
    by (simp add: Closed_handler_def)
next
  assume "reachable mn w"
  then have inv: "tab_inv w" by (rule reachable_inv)
  then show c: "closedHandlers w = [rootPane w]" by (simp add: tab_inv_def)
  then show r: "raise_Closed (rootPane w) w = w\<lparr>outbox := outbox w @ [Raise Closed]\<rparr>"
    by (simp add: raise_Closed_def Closed_handler_def)
  fix t ps
  assume a: "panes w = Some t \<and> Pane_Close (activePane w) t = (TreeEmptied, ps)"
  with inv have root: "paneId t = rootPane w" by (simp add: tab_inv_def tree_ok_def)
  from a have "ps = None"
    by (auto simp: Pane_Close_def split: option.splits Pane.splits)
  with a root c show "Tab_ClosePane w = w\<lparr>panes := None, outbox := outbox w @ [Raise Closed]\<rparr>"
    by (simp add: Tab_ClosePane_def raise_Closed_def Closed_handler_def)
qed

theorem closed_is_forwarded_witness:
  "closedHandlers example_tab1 = [rootPane example_tab1] \<and>
   raise_Closed (rootPane example_tab1) example_tab1
     = example_tab1\<lparr>outbox := outbox example_tab1 @ [Raise Closed]\<rparr> \<and>
   Tab_ClosePane example_tab1
     = example_tab1\<lparr>panes := None, outbox := outbox example_tab1 @ [Raise Closed]\<rparr>"
proof -
  have "panes example_tab1 = Some (Leaf 0 7 9 True (80, 24)) \<and>
        Pane_Close (activePane example_tab1) (Leaf 0 7 9 True (80, 24)) = (TreeEmptied, None)"
    by (simp add: example_tab1_eq Pane_Close_def)
  with closed_is_forwarded [of example_tab1 example_min example_tab1] example_tab1_reachable
  show ?thesis by blast
qed

text \<open>
  Claim C7. \<open>SetFocused\<close> with either argument leaves \<open>activePane\<close> and the whole tree (hence
  every \<open>isActive\<close> flag) as they were. \<open>SetFocused(false)\<close> changes \<open>focused\<close> only.
  \<open>SetFocused(true)\<close> sets \<open>focused\<close> and makes one call, a focus request on the control of
  the active pane; when the active pane has no control it makes none.
\<close>

theorem SetFocused_keeps_active_pane:
  "activePane (Tab_SetFocused b w) = activePane w \<and>
   panes (Tab_SetFocused b w) = panes w \<and>
   Tab_SetFocused False w = w\<lparr>focused := False\<rparr> \<and>
   (Tab_GetActiveTerminalControl w = Some c \<longrightarrow>
      Tab_SetFocused True w = w\<lparr>focused := True, outbox := outbox w @ [Focus c]\<rparr>) \<and>
   (Tab_GetActiveTerminalControl w = None \<longrightarrow> Tab_SetFocused True w = w\<lparr>focused := True\<rparr>)"
  by (simp add: Tab_SetFocused_def Tab_Focus_def Let_def Tab_GetActiveTerminalControl_def
      the_pane_def split: option.splits)

theorem SetFocused_keeps_active_pane_witness:
  "Tab_SetFocused True example_tab1
     = example_tab1\<lparr>focused := True, outbox := outbox example_tab1 @ [Focus 9]\<rparr> \<and>
   Tab_SetFocused True example_tab3 = example_tab3\<lparr>focused := True\<rparr>"
proof -
  have 1: "Tab_GetActiveTerminalControl example_tab1 = Some 9"
    by (simp add: example_tab1_eq Tab_GetActiveTerminalControl_def the_pane_def)
  have 3: "Tab_GetActiveTerminalControl example_tab3 = None"
    by (simp add: example_tab3_eq Tab_GetActiveTerminalControl_def the_pane_def)
  from SetFocused_keeps_active_pane [of True example_tab1 9] 1
    SetFocused_keeps_active_pane [of True example_tab3 0] 3
  show ?thesis by blast
qed

text \<open>
  Claim C8. While the tab exists, the TitleChanged lambda ignores the new title it is given:
  it hands the dispatcher a header update carrying the title of the active pane's control
  (the empty string when there is none), and running that update sets the header to it.
  When a control that is not the active pane's control changes its title, each lambda
  registered on it schedules the active pane's title, which is unchanged.
\<close>

theorem title_change_shows_active_title:
  assumes "\<not> expired w"
  shows "TitleChanged_handler newTitle w
           = w\<lparr>outbox := outbox w @ [RunAsync (SetHeader (Tab_GetActiveTitle w))]\<rparr> \<and>
         Header (tabViewItem (run_task (SetHeader (Tab_GetActiveTitle w))
                   (TitleChanged_handler newTitle w))) = Tab_GetActiveTitle w \<and>
         (Tab_GetActiveTerminalControl w \<noteq> Some ctl \<longrightarrow>
            raise_TitleChanged ctl newTitle w =
              w\<lparr>title := (title w)(ctl := newTitle),
                outbox := outbox w @ replicate (count_list (titleChangedHandlers w) ctl)
                            (RunAsync (SetHeader (Tab_GetActiveTitle w)))\<rparr>)"
proof (intro conjI impI)
  show h: "TitleChanged_handler newTitle w
           = w\<lparr>outbox := outbox w @ [RunAsync (SetHeader (Tab_GetActiveTitle w))]\<rparr>"
    using assms by (simp add: TitleChanged_handler_def Tab_SetTabText_def)
  show "Header (tabViewItem (run_task (SetHeader (Tab_GetActiveTitle w))
                   (TitleChanged_handler newTitle w))) = Tab_GetActiveTitle w"
    using assms by (simp add: h)
next
  assume other: "Tab_GetActiveTerminalControl w \<noteq> Some ctl"
  let ?w1 = "w\<lparr>title := (title w)(ctl := newTitle)\<rparr>"
  have "\<not> expired ?w1" using assms by simp
  from TitleChanged_funpow [OF this, where newTitle = newTitle
      and n = "count_list (titleChangedHandlers w) ctl"]
  show "raise_TitleChanged ctl newTitle w =
              w\<lparr>title := (title w)(ctl := newTitle),
                outbox := outbox w @ replicate (count_list (titleChangedHandlers w) ctl)
                            (RunAsync (SetHeader (Tab_GetActiveTitle w)))\<rparr>"
    using GetActiveTitle_other_control [OF other, where newTitle = newTitle]
    by (simp add: raise_TitleChanged_def)
qed

theorem title_change_shows_active_title_witness:
  "TitleChanged_handler ''vim'' example_tab1
     = example_tab1\<lparr>outbox := outbox example_tab1 @ [RunAsync (SetHeader ''pwsh'')]\<rparr> \<and>
   Header (tabViewItem (run_task (SetHeader ''pwsh'')
             (TitleChanged_handler ''vim'' example_tab1))) = ''pwsh'' \<and>
   raise_TitleChanged 9 ''vim'' (GotFocus_handler 2 example_tab2) =
     (GotFocus_handler 2 example_tab2)
       \<lparr>title := (title (GotFocus_handler 2 example_tab2))(9 := ''vim''),
        outbox := outbox (GotFocus_handler 2 example_tab2) @ [RunAsync (SetHeader ''cmd'')]\<rparr>"
proof -
  let ?w = "GotFocus_handler 2 example_tab2"
  have e1: "\<not> expired example_tab1" by (simp add: example_tab1_eq)
  have t1: "Tab_GetActiveTitle example_tab1 = ''pwsh''"
    by (simp add: example_tab1_eq Tab_GetActiveTitle_def Tab_GetActiveTerminalControl_def
        the_pane_def example_titles_def)
  have e2: "\<not> expired ?w" by (simp add: example_tab2_def)
  have c2: "Tab_GetActiveTerminalControl ?w \<noteq> Some 9"
    by (simp add: example_tab2_def example_tree2_def GotFocus_handler_def Let_def
        Tab_SetTabText_def Tab_GetActiveTerminalControl_def the_pane_def)
  have t2: "Tab_GetActiveTitle ?w = ''cmd''"
    by (simp add: example_tab2_def example_tree2_def GotFocus_handler_def Let_def
        Tab_SetTabText_def Tab_GetActiveTitle_def Tab_GetActiveTerminalControl_def the_pane_def
        example_titles_def)
  have n2: "count_list (titleChangedHandlers ?w) 9 = Suc 0"
    by (simp add: example_tab2_def GotFocus_handler_def Let_def Tab_SetTabText_def)
  from title_change_shows_active_title [OF e1, of "''vim''" 10]
  have a: "TitleChanged_handler ''vim'' example_tab1
     = example_tab1\<lparr>outbox := outbox example_tab1 @ [RunAsync (SetHeader (Tab_GetActiveTitle example_tab1))]\<rparr> \<and>
   Header (tabViewItem (run_task (SetHeader (Tab_GetActiveTitle example_tab1))
             (TitleChanged_handler ''vim'' example_tab1))) = Tab_GetActiveTitle example_tab1"
    by blast
  from title_change_shows_active_title [OF e2, of "''vim''" 9] c2
  have b: "raise_TitleChanged 9 ''vim'' ?w =
              ?w\<lparr>title := (title ?w)(9 := ''vim''),
                outbox := outbox ?w @ replicate (count_list (titleChangedHandlers ?w) 9)
                            (RunAsync (SetHeader (Tab_GetActiveTitle ?w)))\<rparr>"
    by blast
  have a': "TitleChanged_handler ''vim'' example_tab1
     = example_tab1\<lparr>outbox := outbox example_tab1 @ [RunAsync (SetHeader ''pwsh'')]\<rparr> \<and>
   Header (tabViewItem (run_task (SetHeader ''pwsh'')
             (TitleChanged_handler ''vim'' example_tab1))) = ''pwsh''"
    by (rule a [unfolded t1])
  have b': "raise_TitleChanged 9 ''vim'' ?w =
     ?w\<lparr>title := (title ?w)(9 := ''vim''),
        outbox := outbox ?w @ [RunAsync (SetHeader ''cmd'')]\<rparr>"
    by (rule b [unfolded t2 n2 replicate.simps])
  from a' b' show ?thesis by blast
qed

text \<open>
  Claim C9. \<open>UpdateIcon\<close> with the path it was last given changes nothing: no state and no
  call. After \<open>UpdateIcon\<close> the last path is the one given, so a second call with the same
  path has no further effect.
\<close>

theorem UpdateIcon_idempotent:
  "Tab_UpdateIcon (lastIconPath w) w = w \<and>
   lastIconPath (Tab_UpdateIcon iconPath w) = iconPath \<and>
   Tab_UpdateIcon iconPath (Tab_UpdateIcon iconPath w) = Tab_UpdateIcon iconPath w"
  by (simp add: Tab_UpdateIcon_def Let_def)

text \<open>
  Claim C10. In the state the constructor leaves, the tracked active pane is the root pane,
  the tree is that one leaf around the given profile and control, with its flag set, and
  the queries on the active pane answer from it.
\<close>

theorem fresh_tab_active_is_root:
  "activePane (Tab_ctor profile ctl titles) = rootPane (Tab_ctor profile ctl titles) \<and>
   panes (Tab_ctor profile ctl titles)
     = Some (Leaf (rootPane (Tab_ctor profile ctl titles)) profile ctl True (0, 0)) \<and>
   the_pane (activePane (Tab_ctor profile ctl titles)) (Tab_ctor profile ctl titles)
     = Some (Leaf (rootPane (Tab_ctor profile ctl titles)) profile ctl True (0, 0)) \<and>
   Tab_GetActiveTerminalControl (Tab_ctor profile ctl titles) = Some ctl \<and>
   Tab_GetFocusedProfile (Tab_ctor profile ctl titles) = Some profile \<and>
   Tab_GetActiveTitle (Tab_ctor profile ctl titles) = titles ctl \<and>
   Tab_CanSplitPane mn splitType (Tab_ctor profile ctl titles)
     = Pane_CanSplit mn splitType (Leaf (rootPane (Tab_ctor profile ctl titles)) profile ctl True (0, 0))"
  by (simp add: Tab_ctor_def the_pane_def Tab_GetActiveTerminalControl_def
      Tab_GetFocusedProfile_def Tab_GetActiveTitle_def Tab_CanSplitPane_def)

end
